theory Spec2Isabelle
  imports Main
begin

unbundle bit_operations_syntax

section \<open>The rule \<open>prefer-at\<close>: data model\<close>

text \<open>
  The rule lives in \<^verbatim>\<open>packages/eslint-plugin/src/rules/prefer-at.ts\<close>. It reads a
  parsed tree, the source text and a type checker, and reports member accesses of the
  form \<^verbatim>\<open>X[X.length - N]\<close>.

  A syntax node carries its source range \<^verbatim>\<open>[start, end)\<close> first, as ESTree nodes do
  in \<^verbatim>\<open>node.range\<close>. The node kinds the rule looks at have a constructor of their
  own; every other kind is an \<open>OtherNode\<close> with its type tag and children.
\<close>

type_synonym srange = "nat \<times> nat"

datatype node =
    Identifier srange string
  | MemberExpression srange node node bool
  | CallExpression srange node "node list"
  | BinaryExpression srange string node node
  | UnaryExpression srange string node
  | Literal srange string
  | ThisExpression srange
  | OtherNode srange string "node list"

text \<open>
  \<open>MemberExpression r object property computed\<close>, \<open>CallExpression r callee arguments\<close>,
  \<open>BinaryExpression r operator left right\<close>, \<open>UnaryExpression r operator argument\<close>,
  \<open>Identifier r name\<close>, \<open>Literal r raw\<close>.
\<close>

fun node_range :: "node \<Rightarrow> srange" where
  "node_range (Identifier r _) = r"
| "node_range (MemberExpression r _ _ _) = r"
| "node_range (CallExpression r _ _) = r"
| "node_range (BinaryExpression r _ _ _) = r"
| "node_range (UnaryExpression r _ _) = r"
| "node_range (Literal r _) = r"
| "node_range (ThisExpression r) = r"
| "node_range (OtherNode r _ _) = r"

fun isCallExpression :: "node \<Rightarrow> bool" where
  "isCallExpression (CallExpression _ _ _) = True"
| "isCallExpression _ = False"

fun isMemberExpression :: "node \<Rightarrow> bool" where
  "isMemberExpression (MemberExpression _ _ _ _) = True"
| "isMemberExpression _ = False"

text \<open>
  What the rule asks of a \<^verbatim>\<open>ts.Type\<close>: the name of its symbol, if it has one
  (\<^verbatim>\<open>type.getSymbol()?.name\<close>), its flags (\<^verbatim>\<open>type.getFlags()\<close>) and its
  properties by name (\<^verbatim>\<open>type.getProperty(name)\<close>).
\<close>

record ts_type =
  symbol_name :: "string option"
  type_flags :: nat
  property_names :: "string list"

definition getProperty :: "ts_type \<Rightarrow> string \<Rightarrow> string option" where
  "getProperty t n = List.find (\<lambda>p. p = n) (property_names t)"

text \<open>
  The flag values are those of the \<^verbatim>\<open>TypeFlags\<close> enum of the TypeScript compiler
  (a dependency of the rule, not part of it): \<^verbatim>\<open>String = 1 << 2\<close>,
  \<^verbatim>\<open>Number = 1 << 3\<close>, \<^verbatim>\<open>Enum = 1 << 5\<close>, \<^verbatim>\<open>NumberLiteral = 1 << 8\<close> and
  \<^verbatim>\<open>NumberLike = Number | NumberLiteral | Enum\<close>. \<^verbatim>\<open>tsutils.isTypeFlagSet(type, flag)\<close>
  is \<^verbatim>\<open>(type.flags & flag) !== 0\<close>.
\<close>

definition TypeFlags_String :: nat where
  "TypeFlags_String = 4"

definition TypeFlags_NumberLike :: nat where
  "TypeFlags_NumberLike = 296"

definition isTypeFlagSet :: "ts_type \<Rightarrow> nat \<Rightarrow> bool" where
  "isTypeFlagSet t flag = (type_flags t AND flag \<noteq> 0)"

text \<open>
  The type checker is a function from nodes to types
  (\<^verbatim>\<open>checker.getTypeAtLocation(parserServices.esTreeNodeToTSNodeMap.get(node))\<close>).
  The rule's only option is \<^verbatim>\<open>ignoreFunctions\<close>, false by default.
\<close>

type_synonym type_checker = "node \<Rightarrow> ts_type"

record options =
  ignoreFunctions :: bool

definition defaultOptions :: options where
  "defaultOptions = \<lparr>ignoreFunctions = False\<rparr>"

text \<open>
  A report as the rule hands it to \<^verbatim>\<open>context.report\<close>: the message id, the data for
  the message's placeholders, the node, and the fix. The fix is what
  \<^verbatim>\<open>fixer.replaceText(node, text)\<close> builds: the node's range and the new text.
\<close>

record fix_directive =
  fix_range :: srange
  fix_text :: string

record report =
  messageId :: string
  report_data :: "(string \<times> string) list"
  report_node :: node
  report_fix :: fix_directive

text \<open>The rule's \<^verbatim>\<open>meta\<close>: it is fixable, and has one message.\<close>

definition meta_fixable :: string where
  "meta_fixable = ''code''"

definition meta_messages :: "(string \<times> string) list" where
  "meta_messages =
     [(''preferAt'',
       ''Expected a `{{name}}.at(-1)` instead of `{{name}}[{{name}}.length - 1]`.'')]"

section \<open>The rule's functions\<close>

fun getName :: "node \<Rightarrow> string option" where
  "getName (Identifier _ name) = Some name"
| "getName (MemberExpression _ _ property _) = getName property"
| "getName _ = None"

text \<open>
  \<^verbatim>\<open>sourceCode.text.slice(node.range[0], node.range[1])\<close>. For indices that are not
  negative, \<^verbatim>\<open>slice\<close> clamps both to the length and gives the empty string when the
  end is not after the start, which is what \<open>take\<close> and \<open>drop\<close> do.
\<close>

definition slice :: "string \<Rightarrow> nat \<Rightarrow> nat \<Rightarrow> string" where
  "slice text s e = take (e - s) (drop s text)"

definition getFullName :: "string \<Rightarrow> node \<Rightarrow> string" where
  "getFullName text n = slice text (fst (node_range n)) (snd (node_range n))"

text \<open>
  \<^verbatim>\<open>hasCallExpression\<close> takes a member expression; the last equation is never reached
  from the rule.
\<close>

fun hasCallExpression :: "node \<Rightarrow> bool" where
  "hasCallExpression (MemberExpression _ object _ _) =
     (isCallExpression object \<or> (isMemberExpression object \<and> hasCallExpression object))"
| "hasCallExpression _ = False"

definition checkObjectName :: "string \<Rightarrow> ts_type \<Rightarrow> bool" where
  "checkObjectName name t = (symbol_name t = Some name)"

definition checkObjectType :: "nat \<Rightarrow> ts_type \<Rightarrow> bool" where
  "checkObjectType flags t = (type_flags t = flags)"

definition supporterObjects :: "(ts_type \<Rightarrow> bool) list" where
  "supporterObjects =
     [checkObjectName ''Array'',
      checkObjectName ''Int8Array'',
      checkObjectName ''Uint8Array'',
      checkObjectName ''Uint8ClampedArray'',
      checkObjectName ''Int16Array'',
      checkObjectName ''Uint16Array'',
      checkObjectName ''Int32Array'',
      checkObjectName ''Float32Array'',
      checkObjectName ''Uint32Array'',
      checkObjectName ''Float64Array'',
      checkObjectName ''BigInt64Array'',
      checkObjectName ''BigUint64Array'',
      checkObjectName ''String'',
      checkObjectType TypeFlags_String]"

definition isSupportedObject :: "ts_type \<Rightarrow> bool" where
  "isSupportedObject t = list_ex (\<lambda>check. check t) supporterObjects"

fun isExpectedObject :: "options \<Rightarrow> type_checker \<Rightarrow> node \<Rightarrow> bool" where
  "isExpectedObject opts checker (MemberExpression r object property computed) =
     (if ignoreFunctions opts \<and> hasCallExpression (MemberExpression r object property computed)
      then False
      else let t = checker object in
        if \<not> isSupportedObject t then False
        else (case getProperty t ''at'' of None \<Rightarrow> False | Some atMember \<Rightarrow> True))"
| "isExpectedObject opts checker _ = False"

text \<open>
  The next three take the binary expression apart: \<open>left\<close> and \<open>right\<close> are
  \<^verbatim>\<open>node.left\<close> and \<^verbatim>\<open>node.right\<close>.
\<close>

definition isExpectedExpressionLeft :: "options \<Rightarrow> type_checker \<Rightarrow> node \<Rightarrow> bool" where
  "isExpectedExpressionLeft opts checker left =
     (if \<not> isExpectedObject opts checker left \<or> getName left \<noteq> Some ''length'' then False
      else isTypeFlagSet (checker left) TypeFlags_NumberLike)"

definition isExpectedExpressionRight :: "type_checker \<Rightarrow> node \<Rightarrow> bool" where
  "isExpectedExpressionRight checker right = isTypeFlagSet (checker right) TypeFlags_NumberLike"

definition isExpectedExpression :: "options \<Rightarrow> type_checker \<Rightarrow> node \<Rightarrow> node \<Rightarrow> bool" where
  "isExpectedExpression opts checker left right =
     (isExpectedExpressionRight checker right \<and> isExpectedExpressionLeft opts checker left)"

text \<open>
  The selector
  \<^verbatim>\<open>MemberExpression[property.type="BinaryExpression"][property.operator="-"]\<close>.
\<close>

fun selector :: "node \<Rightarrow> bool" where
  "selector (MemberExpression _ _ (BinaryExpression _ operator _ _) _) = (operator = ''-'')"
| "selector _ = False"

text \<open>
  The listener's body, on a node the selector matched. It returns the reports it makes:
  none or one. \<^verbatim>\<open>node.property.left.object\<close> is read only after
  \<^verbatim>\<open>isExpectedExpression\<close> has found \<^verbatim>\<open>node.property.left\<close> to be a member
  expression. The host calls the listener on nodes of the selector only, so the last
  equation is never reached.
\<close>

fun listener :: "options \<Rightarrow> type_checker \<Rightarrow> string \<Rightarrow> node \<Rightarrow> report list" where
  "listener opts checker text (MemberExpression r object (BinaryExpression rp operator left right) computed) =
     (if \<not> isExpectedExpression opts checker left right then []
      else (case left of
          MemberExpression _ left_object _ _ \<Rightarrow>
            (let objectName = getFullName text object;
                 memberName = getFullName text left_object;
                 rightName = getFullName text right
             in if objectName \<noteq> memberName then []
                else [\<lparr>messageId = ''preferAt'',
                       report_data = [(''name'', objectName)],
                       report_node = MemberExpression r object (BinaryExpression rp operator left right) computed,
                       report_fix = \<lparr>fix_range = r,
                                     fix_text = objectName @ ''.at(-'' @ rightName @ '')''\<rparr>\<rparr>])
        | _ \<Rightarrow> []))"
| "listener opts checker text _ = []"

text \<open>One step of the host's traversal: the listener runs on the nodes of its selector.\<close>

definition visit :: "options \<Rightarrow> type_checker \<Rightarrow> string \<Rightarrow> node \<Rightarrow> report list" where
  "visit opts checker text n = (if selector n then listener opts checker text n else [])"

section \<open>The host's side of a report\<close>

text \<open>
  Modelled from the spec: the host's rendering of a report, which is not among the
  sources. The spec says that a report consists of the message template "with
  \<^verbatim>\<open>{name}\<close> substituted by the object's display name". The host looks the message
  id up in \<^verbatim>\<open>meta.messages\<close> and replaces every placeholder \<^verbatim>\<open>{{key}}\<close> whose
  trimmed key is in the report's data by the data's value, in one pass; a placeholder
  with an unknown key stays as it is.
\<close>

definition isSpace :: "char \<Rightarrow> bool" where
  "isSpace ch = (ch \<in> set [CHR '' '', CHR 0x09, CHR 0x0A, CHR 0x0B, CHR 0x0C, CHR 0x0D])"

definition trim :: "string \<Rightarrow> string" where
  "trim str = rev (dropWhile isSpace (rev (dropWhile isSpace str)))"

function interpolate :: "(string \<times> string) list \<Rightarrow> string \<Rightarrow> string" where
  "interpolate data [] = []"
| "interpolate data (ch # cs) =
     (let key = takeWhile (\<lambda>x. x \<noteq> CHR ''{'' \<and> x \<noteq> CHR ''}'') (drop 1 cs);
          rest = drop (length key) (drop 1 cs)
      in if ch = CHR ''{'' \<and> take 1 cs = ''{'' \<and> key \<noteq> [] \<and> take 2 rest = ''}}''
         then (case map_of data (trim key) of
                 Some v \<Rightarrow> v @ interpolate data (drop 2 rest)
               | None \<Rightarrow> ''{{'' @ key @ ''}}'' @ interpolate data (drop 2 rest))
         else ch # interpolate data cs)"
  by pat_completeness auto
termination
  by (relation "measure (\<lambda>(data, text). length text)") auto

definition render_message :: "report \<Rightarrow> string option" where
  "render_message rep =
     (case map_of meta_messages (messageId rep) of
        None \<Rightarrow> None
      | Some template \<Rightarrow> Some (interpolate (report_data rep) template))"

section \<open>Notions the properties are stated with\<close>

text \<open>
  The chain of a member access: the nodes reached by following \<^verbatim>\<open>object\<close> links, the
  first being the node's own object. A node that is not a member access has no chain.
\<close>

fun object_chain :: "node \<Rightarrow> node list" where
  "object_chain (MemberExpression _ object _ _) = object # object_chain object"
| "object_chain _ = []"

text \<open>
  Ranges as a parser gives them: no node is empty, every child lies inside its parent,
  an object ends before its property starts, and a left operand ends before the right
  one starts.
\<close>

definition range_inside :: "srange \<Rightarrow> srange \<Rightarrow> bool" where
  "range_inside inner outer = (fst outer \<le> fst inner \<and> snd inner \<le> snd outer)"

definition range_before :: "srange \<Rightarrow> srange \<Rightarrow> bool" where
  "range_before a b = (snd a \<le> fst b)"

fun wf_ranges :: "node \<Rightarrow> bool" where
  "wf_ranges (Identifier r _) = (fst r < snd r)"
| "wf_ranges (MemberExpression r object property _) =
     (fst r < snd r \<and> range_inside (node_range object) r \<and> range_inside (node_range property) r
      \<and> range_before (node_range object) (node_range property)
      \<and> wf_ranges object \<and> wf_ranges property)"
| "wf_ranges (CallExpression r callee arguments) =
     (fst r < snd r \<and> range_inside (node_range callee) r \<and> wf_ranges callee
      \<and> list_all (\<lambda>a. range_inside (node_range a) r \<and> range_before (node_range callee) (node_range a)
             \<and> wf_ranges a) arguments)"
| "wf_ranges (BinaryExpression r _ left right) =
     (fst r < snd r \<and> range_inside (node_range left) r \<and> range_inside (node_range right) r
      \<and> range_before (node_range left) (node_range right)
      \<and> wf_ranges left \<and> wf_ranges right)"
| "wf_ranges (UnaryExpression r _ argument) =
     (fst r < snd r \<and> range_inside (node_range argument) r \<and> wf_ranges argument)"
| "wf_ranges (Literal r _) = (fst r < snd r)"
| "wf_ranges (ThisExpression r) = (fst r < snd r)"
| "wf_ranges (OtherNode r _ children) =
     (fst r < snd r \<and> list_all (\<lambda>a. range_inside (node_range a) r \<and> wf_ranges a) children)"

text \<open>
  The listener with its two checks in the other order: the texts of the two objects are
  compared first, the types are checked after. It is the variant the rule is compared
  with; the rule itself is \<open>listener\<close>.
\<close>

fun listener_text_first :: "options \<Rightarrow> type_checker \<Rightarrow> string \<Rightarrow> node \<Rightarrow> report list" where
  "listener_text_first opts checker text (MemberExpression r object (BinaryExpression rp operator left right) computed) =
     (case left of
        MemberExpression _ left_object _ _ \<Rightarrow>
          (let objectName = getFullName text object;
               memberName = getFullName text left_object;
               rightName = getFullName text right
           in if objectName \<noteq> memberName then []
              else if \<not> isExpectedExpression opts checker left right then []
              else [\<lparr>messageId = ''preferAt'',
                     report_data = [(''name'', objectName)],
                     report_node = MemberExpression r object (BinaryExpression rp operator left right) computed,
                     report_fix = \<lparr>fix_range = r,
                                   fix_text = objectName @ ''.at(-'' @ rightName @ '')''\<rparr>\<rparr>])
      | _ \<Rightarrow> [])"
| "listener_text_first opts checker text _ = []"

definition visit_text_first :: "options \<Rightarrow> type_checker \<Rightarrow> string \<Rightarrow> node \<Rightarrow> report list" where
  "visit_text_first opts checker text n =
     (if selector n then listener_text_first opts checker text n else [])"

text \<open>The nodes of a tree: the node itself and the nodes of its children.\<close>

fun subnodes :: "node \<Rightarrow> node list" where
  "subnodes (Identifier r name) = [Identifier r name]"
| "subnodes (MemberExpression r object property computed) =
     MemberExpression r object property computed # subnodes object @ subnodes property"
| "subnodes (CallExpression r callee arguments) =
     CallExpression r callee arguments # subnodes callee @ concat (map subnodes arguments)"
| "subnodes (BinaryExpression r operator left right) =
     BinaryExpression r operator left right # subnodes left @ subnodes right"
| "subnodes (UnaryExpression r operator argument) =
     UnaryExpression r operator argument # subnodes argument"
| "subnodes (Literal r raw) = [Literal r raw]"
| "subnodes (ThisExpression r) = [ThisExpression r]"
| "subnodes (OtherNode r kind children) =
     OtherNode r kind children # concat (map subnodes children)"

text \<open>
  Modelled from the spec: what the parser, which is not among the sources, guarantees of
  the nodes of the selector. The spec calls them computed member accesses "with a
  subtraction inside the brackets", and a node's range covers its whole source: the
  source of such a node is not empty and ends with the closing bracket. A tree has its
  brackets closed when this holds of every node of it that the selector matches.
\<close>

definition closes_with_bracket :: "string \<Rightarrow> node \<Rightarrow> bool" where
  "closes_with_bracket src m =
     (getFullName src m \<noteq> [] \<and> last (getFullName src m) = CHR '']'')"

definition brackets_closed :: "string \<Rightarrow> node \<Rightarrow> bool" where
  "brackets_closed src tree =
     list_all (\<lambda>m. selector m \<longrightarrow> closes_with_bracket src m) (subnodes tree)"

section \<open>Examples\<close>

definition arrayT :: ts_type where
  "arrayT = \<lparr>symbol_name = Some ''Array'', type_flags = 524288,
             property_names = [''length'', ''at'', ''push'']\<rparr>"

definition oldArrayT :: ts_type where
  "oldArrayT = \<lparr>symbol_name = Some ''Array'', type_flags = 524288,
                property_names = [''length'', ''push'']\<rparr>"

definition recordT :: ts_type where
  "recordT = \<lparr>symbol_name = Some ''__type'', type_flags = 524288, property_names = []\<rparr>"

definition stringT :: ts_type where
  "stringT = \<lparr>symbol_name = None, type_flags = 4, property_names = [''length'', ''at'']\<rparr>"

definition numberT :: ts_type where
  "numberT = \<lparr>symbol_name = None, type_flags = 8, property_names = [''toFixed'']\<rparr>"

definition numberLiteralT :: ts_type where
  "numberLiteralT = \<lparr>symbol_name = None, type_flags = 256, property_names = [''toFixed'']\<rparr>"

text \<open>
  A checker for the examples: \<^verbatim>\<open>s\<close> is a string, \<^verbatim>\<open>obj\<close> a
  \<^verbatim>\<open>Record<string, number>\<close>, \<^verbatim>\<open>old\<close> an array without \<^verbatim>\<open>at\<close>, \<^verbatim>\<open>n\<close> and
  \<^verbatim>\<open>i\<close> numbers, every other name and every call an array; \<^verbatim>\<open>.length\<close> and
  arithmetic are numbers.
\<close>

fun example_checker :: type_checker where
  "example_checker (Identifier _ name) =
     (if name = ''s'' then stringT
      else if name = ''obj'' then recordT
      else if name = ''old'' then oldArrayT
      else if name = ''n'' \<or> name = ''i'' then numberT
      else arrayT)"
| "example_checker (MemberExpression _ _ property _) =
     (if getName property = Some ''length'' then numberT else arrayT)"
| "example_checker (Literal _ _) = numberLiteralT"
| "example_checker (BinaryExpression _ _ _ _) = numberT"
| "example_checker (UnaryExpression _ _ _) = numberT"
| "example_checker _ = arrayT"

text \<open>The options with \<^verbatim>\<open>ignoreFunctions\<close> on.\<close>

definition ignoringFunctions :: options where
  "ignoringFunctions = \<lparr>ignoreFunctions = True\<rparr>"

text \<open>\<^verbatim>\<open>arr[arr.length - 1]\<close>\<close>

definition text_arr :: string where
  "text_arr = ''arr[arr.length - 1]''"

definition node_arr :: node where
  "node_arr = MemberExpression (0, 19) (Identifier (0, 3) ''arr'')
     (BinaryExpression (4, 18) ''-''
        (MemberExpression (4, 14) (Identifier (4, 7) ''arr'') (Identifier (8, 14) ''length'') False)
        (Literal (17, 18) ''1'')) True"

text \<open>\<^verbatim>\<open>arr[this.arr.length - 1]\<close>\<close>

definition text_this :: string where
  "text_this = ''arr[this.arr.length - 1]''"

definition node_this :: node where
  "node_this = MemberExpression (0, 24) (Identifier (0, 3) ''arr'')
     (BinaryExpression (4, 23) ''-''
        (MemberExpression (4, 19)
           (MemberExpression (4, 12) (ThisExpression (4, 8)) (Identifier (9, 12) ''arr'') False)
           (Identifier (13, 19) ''length'') False)
        (Literal (22, 23) ''1'')) True"

text \<open>\<^verbatim>\<open>f()[f().length - 1]\<close>\<close>

definition text_call :: string where
  "text_call = ''f()[f().length - 1]''"

definition node_call :: node where
  "node_call = MemberExpression (0, 19) (CallExpression (0, 3) (Identifier (0, 1) ''f'') [])
     (BinaryExpression (4, 18) ''-''
        (MemberExpression (4, 14) (CallExpression (4, 7) (Identifier (4, 5) ''f'') [])
           (Identifier (8, 14) ''length'') False)
        (Literal (17, 18) ''1'')) True"

text \<open>\<^verbatim>\<open>s[s.length - 2]\<close>\<close>

definition text_s :: string where
  "text_s = ''s[s.length - 2]''"

definition node_s :: node where
  "node_s = MemberExpression (0, 15) (Identifier (0, 1) ''s'')
     (BinaryExpression (2, 14) ''-''
        (MemberExpression (2, 10) (Identifier (2, 3) ''s'') (Identifier (4, 10) ''length'') False)
        (Literal (13, 14) ''2'')) True"

text \<open>\<^verbatim>\<open>obj[obj.length - 1]\<close>\<close>

definition text_obj :: string where
  "text_obj = ''obj[obj.length - 1]''"

definition node_obj :: node where
  "node_obj = MemberExpression (0, 19) (Identifier (0, 3) ''obj'')
     (BinaryExpression (4, 18) ''-''
        (MemberExpression (4, 14) (Identifier (4, 7) ''obj'') (Identifier (8, 14) ''length'') False)
        (Literal (17, 18) ''1'')) True"

text \<open>\<^verbatim>\<open>arr[arr.length - (n - 1)]\<close>; the parentheses are not part of the offset's range.\<close>

definition text_paren :: string where
  "text_paren = ''arr[arr.length - (n - 1)]''"

definition node_paren :: node where
  "node_paren = MemberExpression (0, 25) (Identifier (0, 3) ''arr'')
     (BinaryExpression (4, 24) ''-''
        (MemberExpression (4, 14) (Identifier (4, 7) ''arr'') (Identifier (8, 14) ''length'') False)
        (BinaryExpression (18, 23) ''-'' (Identifier (18, 19) ''n'') (Literal (22, 23) ''1''))) True"

text \<open>\<^verbatim>\<open>arr[arr.length - -1]\<close>\<close>

definition text_signed :: string where
  "text_signed = ''arr[arr.length - -1]''"

definition node_signed :: node where
  "node_signed = MemberExpression (0, 20) (Identifier (0, 3) ''arr'')
     (BinaryExpression (4, 19) ''-''
        (MemberExpression (4, 14) (Identifier (4, 7) ''arr'') (Identifier (8, 14) ''length'') False)
        (UnaryExpression (17, 19) ''-'' (Literal (18, 19) ''1''))) True"

text \<open>
  \<^verbatim>\<open>a[a.length - 1] + b[b.length - 1]\<close>, of which the left operand is given, and the
  same text with the left operand fixed, \<^verbatim>\<open>a.at(-1) + b[b.length - 1]\<close>, as parsed
  again.
\<close>

definition text_two :: string where
  "text_two = ''a[a.length - 1] + b[b.length - 1]''"

definition node_two_left :: node where
  "node_two_left = MemberExpression (0, 15) (Identifier (0, 1) ''a'')
     (BinaryExpression (2, 14) ''-''
        (MemberExpression (2, 10) (Identifier (2, 3) ''a'') (Identifier (4, 10) ''length'') False)
        (Literal (13, 14) ''1'')) True"

definition text_fixed :: string where
  "text_fixed = ''a.at(-1) + b[b.length - 1]''"

definition node_fixed_left :: node where
  "node_fixed_left = CallExpression (0, 8)
     (MemberExpression (0, 4) (Identifier (0, 1) ''a'') (Identifier (2, 4) ''at'') False)
     [UnaryExpression (5, 7) ''-'' (Literal (6, 7) ''1'')]"

definition node_fixed_right :: node where
  "node_fixed_right = MemberExpression (11, 26) (Identifier (11, 12) ''b'')
     (BinaryExpression (13, 25) ''-''
        (MemberExpression (13, 21) (Identifier (13, 14) ''b'') (Identifier (15, 21) ''length'') False)
        (Literal (24, 25) ''1'')) True"

definition node_fixed :: node where
  "node_fixed = BinaryExpression (0, 26) ''+'' node_fixed_left node_fixed_right"

text \<open>\<^verbatim>\<open>a[f()][a[f()].length - 1]\<close>\<close>

definition text_prop_call :: string where
  "text_prop_call = ''a[f()][a[f()].length - 1]''"

definition node_prop_call :: node where
  "node_prop_call = MemberExpression (0, 25)
     (MemberExpression (0, 6) (Identifier (0, 1) ''a'')
        (CallExpression (2, 5) (Identifier (2, 3) ''f'') []) True)
     (BinaryExpression (7, 24) ''-''
        (MemberExpression (7, 20)
           (MemberExpression (7, 13) (Identifier (7, 8) ''a'')
              (CallExpression (9, 12) (Identifier (9, 10) ''f'') []) True)
           (Identifier (14, 20) ''length'') False)
        (Literal (23, 24) ''1'')) True"

section \<open>Lemmas about the rule's functions\<close>

lemmas example_types =
  arrayT_def oldArrayT_def recordT_def stringT_def numberT_def numberLiteralT_def

lemmas rule_defs =
  visit_def Let_def isExpectedExpression_def isExpectedExpressionLeft_def
  isExpectedExpressionRight_def isTypeFlagSet_def TypeFlags_NumberLike_def TypeFlags_String_def
  isSupportedObject_def supporterObjects_def checkObjectName_def checkObjectType_def
  getProperty_def getFullName_def slice_def

lemma isSupportedObject_names:
  "isSupportedObject t \<longleftrightarrow>
     symbol_name t \<in> Some ` {''Array'', ''Int8Array'', ''Uint8Array'', ''Uint8ClampedArray'',
        ''Int16Array'', ''Uint16Array'', ''Int32Array'', ''Float32Array'', ''Uint32Array'',
        ''Float64Array'', ''BigInt64Array'', ''BigUint64Array'', ''String''}
     \<or> type_flags t = TypeFlags_String"
  unfolding isSupportedObject_def supporterObjects_def checkObjectName_def checkObjectType_def
  by (simp add: image_iff)

lemma getProperty_at: "getProperty t n \<noteq> None \<longleftrightarrow> n \<in> set (property_names t)"
  by (auto simp: getProperty_def find_None_iff)

lemma hasCallExpression_chain:
  "hasCallExpression n \<longleftrightarrow> (\<exists>m \<in> set (object_chain n). isCallExpression m)"
proof (induction n rule: hasCallExpression.induct)
  case (1 r object property computed)
  show ?case
  proof (cases "isMemberExpression object")
    case True
    then have "\<not> isCallExpression object" by (cases object) simp_all
    with True 1 show ?thesis by simp
  next
    case False
    then have "object_chain object = []" by (cases object) simp_all
    with False show ?thesis by simp
  qed
qed simp_all

lemma isExpectedExpression_member:
  "isExpectedExpression opts checker (MemberExpression rl lobj lprop lc) right \<longleftrightarrow>
     isTypeFlagSet (checker right) TypeFlags_NumberLike
     \<and> \<not> (ignoreFunctions opts \<and> hasCallExpression (MemberExpression rl lobj lprop lc))
     \<and> isSupportedObject (checker lobj)
     \<and> getProperty (checker lobj) ''at'' \<noteq> None
     \<and> getName lprop = Some ''length''
     \<and> isTypeFlagSet (checker (MemberExpression rl lobj lprop lc)) TypeFlags_NumberLike"
  unfolding isExpectedExpression_def isExpectedExpressionLeft_def isExpectedExpressionRight_def
  by (auto simp: Let_def split: option.splits)

lemma isExpectedExpression_other:
  "\<not> isMemberExpression left \<Longrightarrow> \<not> isExpectedExpression opts checker left right"
  unfolding isExpectedExpression_def isExpectedExpressionLeft_def
  by (cases left) simp_all

lemma visit_member:
  "visit opts checker text
     (MemberExpression r obj (BinaryExpression rp ''-'' (MemberExpression rl lobj lprop lc) right) c) =
   (if isExpectedExpression opts checker (MemberExpression rl lobj lprop lc) right
       \<and> getFullName text obj = getFullName text lobj
    then [\<lparr>messageId = ''preferAt'',
           report_data = [(''name'', getFullName text obj)],
           report_node = MemberExpression r obj
             (BinaryExpression rp ''-'' (MemberExpression rl lobj lprop lc) right) c,
           report_fix = \<lparr>fix_range = r,
             fix_text = getFullName text obj @ ''.at(-'' @ getFullName text right @ '')''\<rparr>\<rparr>]
    else [])"
  by (simp add: visit_def Let_def)

lemma visit_other_left:
  "\<not> isMemberExpression left \<Longrightarrow>
   visit opts checker text (MemberExpression r obj (BinaryExpression rp op left right) c) = []"
  by (simp add: visit_def isExpectedExpression_other)

lemma visit_other_operator:
  "op \<noteq> ''-'' \<Longrightarrow>
   visit opts checker text (MemberExpression r obj (BinaryExpression rp op left right) c) = []"
  by (simp add: visit_def)

lemma selector_shape:
  assumes "selector n"
  obtains r obj rp left right c
  where "n = MemberExpression r obj (BinaryExpression rp ''-'' left right) c"
proof (cases n)
  case (MemberExpression r obj property c)
  with assms show ?thesis by (cases property) (auto intro: that)
qed (use assms in simp_all)

lemmas example_defs =
  text_arr_def node_arr_def text_this_def node_this_def text_call_def node_call_def
  ignoringFunctions_def defaultOptions_def text_s_def node_s_def text_paren_def node_paren_def
  text_prop_call_def node_prop_call_def text_obj_def node_obj_def text_signed_def
  node_signed_def

lemma visit_match:
  assumes "left = MemberExpression rl lobj lprop lc"
    and "getName lprop = Some ''length''"
    and "getFullName text obj = getFullName text lobj"
    and "isSupportedObject (checker lobj)"
    and "getProperty (checker lobj) ''at'' \<noteq> None"
    and "isTypeFlagSet (checker left) TypeFlags_NumberLike"
    and "isTypeFlagSet (checker right) TypeFlags_NumberLike"
    and "\<not> (ignoreFunctions opts \<and> hasCallExpression left)"
  shows "visit opts checker text (MemberExpression r obj (BinaryExpression rp ''-'' left right) c) =
     [\<lparr>messageId = ''preferAt'',
       report_data = [(''name'', getFullName text obj)],
       report_node = MemberExpression r obj (BinaryExpression rp ''-'' left right) c,
       report_fix = \<lparr>fix_range = r,
         fix_text = getFullName text obj @ ''.at(-'' @ getFullName text right @ '')''\<rparr>\<rparr>]"
proof -
  from assms(1,2,4-8) have "isExpectedExpression opts checker left right"
    by (simp add: isExpectedExpression_member)
  with assms(1,3) show ?thesis
    by (simp add: visit_member)
qed

lemma visit_cases:
  "visit opts checker text (MemberExpression r obj (BinaryExpression rp op left right) c) = [] \<or>
   visit opts checker text (MemberExpression r obj (BinaryExpression rp op left right) c) =
     [\<lparr>messageId = ''preferAt'',
       report_data = [(''name'', getFullName text obj)],
       report_node = MemberExpression r obj (BinaryExpression rp op left right) c,
       report_fix = \<lparr>fix_range = r,
         fix_text = getFullName text obj @ ''.at(-'' @ getFullName text right @ '')''\<rparr>\<rparr>]"
proof (cases "op = ''-''")
  case minus: True
  show ?thesis
  proof (cases left)
    case (MemberExpression rl lobj lprop lc)
    with minus show ?thesis by (simp add: visit_member)
  qed (simp_all add: visit_other_left)
next
  case False
  then show ?thesis by (simp add: visit_other_operator)
qed

lemma fix_text_closes:
  assumes "rep \<in> set (visit opts checker text n)"
  shows "\<exists>body. fix_text (report_fix rep) = body @ '')''"
proof -
  from assms have "selector n" by (auto simp: visit_def split: if_splits)
  then obtain r obj rp left right c
    where n: "n = MemberExpression r obj (BinaryExpression rp ''-'' left right) c"
    by (rule selector_shape)
  from assms visit_cases [of opts checker "text" r obj rp "''-''" left right c]
  have "fix_text (report_fix rep)
      = (getFullName text obj @ ''.at(-'' @ getFullName text right) @ '')''"
    unfolding n by auto
  then show ?thesis by blast
qed

lemma visit_call_on_chain:
  assumes "ignoreFunctions opts" and "\<exists>m \<in> set (object_chain left). isCallExpression m"
  shows "visit opts checker text (MemberExpression r obj (BinaryExpression rp op left right) c) = []"
proof (cases "op = ''-''")
  case minus: True
  show ?thesis
  proof (cases left)
    case (MemberExpression rl lobj lprop lc)
    from assms(2) have "hasCallExpression left" by (simp add: hasCallExpression_chain)
    with assms(1) MemberExpression
    have "\<not> isExpectedExpression opts checker (MemberExpression rl lobj lprop lc) right"
      by (simp add: isExpectedExpression_member)
    with minus MemberExpression show ?thesis by (simp add: visit_member)
  qed (simp_all add: visit_other_left)
next
  case False
  then show ?thesis by (simp add: visit_other_operator)
qed

lemma wf_ranges_nonempty: "wf_ranges n \<Longrightarrow> fst (node_range n) < snd (node_range n)"
  by (cases n) simp_all

lemma interpolate_preferAt:
  "interpolate [(''name'', v)]
     ''Expected a `{{name}}.at(-1)` instead of `{{name}}[{{name}}.length - 1]`.'' =
   ''Expected a `'' @ v @ ''.at(-1)` instead of `'' @ v @ ''['' @ v @ ''.length - 1]`.''"
  by (simp add: Let_def trim_def isSpace_def)

text \<open>What the rule does on the examples.\<close>

lemma visit_arr:
  "visit opts example_checker text_arr node_arr =
     [\<lparr>messageId = ''preferAt'', report_data = [(''name'', ''arr'')], report_node = node_arr,
       report_fix = \<lparr>fix_range = (0, 19), fix_text = ''arr.at(-1)''\<rparr>\<rparr>]"
  by (simp add: rule_defs example_types example_defs)

lemma visit_s:
  "visit opts example_checker text_s node_s =
     [\<lparr>messageId = ''preferAt'', report_data = [(''name'', ''s'')], report_node = node_s,
       report_fix = \<lparr>fix_range = (0, 15), fix_text = ''s.at(-2)''\<rparr>\<rparr>]"
  by (simp add: rule_defs example_types example_defs)

lemma visit_paren:
  "visit opts example_checker text_paren node_paren =
     [\<lparr>messageId = ''preferAt'', report_data = [(''name'', ''arr'')], report_node = node_paren,
       report_fix = \<lparr>fix_range = (0, 25), fix_text = ''arr.at(-n - 1)''\<rparr>\<rparr>]"
  by (simp add: rule_defs example_types example_defs)

lemma visit_two_left:
  "visit opts example_checker text_two node_two_left =
     [\<lparr>messageId = ''preferAt'', report_data = [(''name'', ''a'')], report_node = node_two_left,
       report_fix = \<lparr>fix_range = (0, 15), fix_text = ''a.at(-1)''\<rparr>\<rparr>]"
  by (simp add: rule_defs example_types text_two_def node_two_left_def)

lemma visit_fixed_right:
  "visit opts example_checker text_fixed node_fixed_right =
     [\<lparr>messageId = ''preferAt'', report_data = [(''name'', ''b'')], report_node = node_fixed_right,
       report_fix = \<lparr>fix_range = (11, 26), fix_text = ''b.at(-1)''\<rparr>\<rparr>]"
  by (simp add: rule_defs example_types text_fixed_def node_fixed_right_def)

lemma visit_signed:
  "visit opts example_checker text_signed node_signed =
     [\<lparr>messageId = ''preferAt'', report_data = [(''name'', ''arr'')], report_node = node_signed,
       report_fix = \<lparr>fix_range = (0, 20), fix_text = ''arr.at(--1)''\<rparr>\<rparr>]"
  by (simp add: rule_defs example_types example_defs)

lemmas example_names = getFullName_def slice_def text_arr_def text_call_def text_prop_call_def

lemma example_type_facts:
  "isSupportedObject arrayT"
  "getProperty arrayT ''at'' \<noteq> None"
  "isTypeFlagSet numberT TypeFlags_NumberLike"
  "isTypeFlagSet numberLiteralT TypeFlags_NumberLike"
  by (simp_all add: isSupportedObject_names getProperty_def isTypeFlagSet_def
      TypeFlags_NumberLike_def example_types)

section \<open>Properties of the rule\<close>

text \<open>
  C1, as amended. On a computed member access \<^verbatim>\<open>X[X.length - N]\<close> where the source
  text of the indexed \<open>X\<close> is the source text of the object inside the \<^verbatim>\<open>.length\<close>
  access, the type of that object is in the allow-list and has a property \<^verbatim>\<open>at\<close>,
  \<^verbatim>\<open>X.length\<close> and \<open>N\<close> have number-like types, and, when \<^verbatim>\<open>ignoreFunctions\<close> is
  on, no node on the object chain of the \<^verbatim>\<open>.length\<close> access is a call, the rule makes
  exactly one report, whose fix replaces the range of the whole outer member access by
  the text of \<open>X\<close>, then \<^verbatim>\<open>.at(-\<close>, then the text of \<open>N\<close>, then \<^verbatim>\<open>)\<close>.
\<close>

theorem match_reported:
  assumes "left = MemberExpression rl X' (Identifier ri ''length'') False"
    and "getFullName text X = getFullName text X'"
    and "isSupportedObject (checker X')"
    and "getProperty (checker X') ''at'' \<noteq> None"
    and "isTypeFlagSet (checker left) TypeFlags_NumberLike"
    and "isTypeFlagSet (checker N) TypeFlags_NumberLike"
    and "ignoreFunctions opts \<longrightarrow> (\<forall>m \<in> set (object_chain left). \<not> isCallExpression m)"
  shows "visit opts checker text (MemberExpression r X (BinaryExpression rp ''-'' left N) True) =
     [\<lparr>messageId = ''preferAt'',
       report_data = [(''name'', getFullName text X)],
       report_node = MemberExpression r X (BinaryExpression rp ''-'' left N) True,
       report_fix = \<lparr>fix_range = r,
         fix_text = getFullName text X @ ''.at(-'' @ getFullName text N @ '')''\<rparr>\<rparr>]"
proof -
  from assms(7) have "\<not> (ignoreFunctions opts \<and> hasCallExpression left)"
    by (auto simp: hasCallExpression_chain)
  with assms(1-6) show ?thesis
    by (intro visit_match
        [where rl = rl and lobj = X' and lprop = "Identifier ri ''length''" and lc = False])
      simp_all
qed

theorem match_reported_witness:
  "visit ignoringFunctions example_checker text_arr node_arr =
     [\<lparr>messageId = ''preferAt'', report_data = [(''name'', ''arr'')], report_node = node_arr,
       report_fix = \<lparr>fix_range = (0, 19), fix_text = ''arr.at(-1)''\<rparr>\<rparr>]"
proof -
  have "visit ignoringFunctions example_checker text_arr
      (MemberExpression (0, 19) (Identifier (0, 3) ''arr'')
         (BinaryExpression (4, 18) ''-''
            (MemberExpression (4, 14) (Identifier (4, 7) ''arr'') (Identifier (8, 14) ''length'') False)
            (Literal (17, 18) ''1'')) True) =
     [\<lparr>messageId = ''preferAt'',
       report_data = [(''name'', getFullName text_arr (Identifier (0, 3) ''arr''))],
       report_node = MemberExpression (0, 19) (Identifier (0, 3) ''arr'')
         (BinaryExpression (4, 18) ''-''
            (MemberExpression (4, 14) (Identifier (4, 7) ''arr'') (Identifier (8, 14) ''length'') False)
            (Literal (17, 18) ''1'')) True,
       report_fix = \<lparr>fix_range = (0, 19),
         fix_text = getFullName text_arr (Identifier (0, 3) ''arr'') @ ''.at(-''
            @ getFullName text_arr (Literal (17, 18) ''1'') @ '')''\<rparr>\<rparr>]"
    by (rule match_reported [OF refl])
      (simp_all add: example_names example_type_facts ignoringFunctions_def)
  then show ?thesis by (simp add: example_names node_arr_def)
qed

text \<open>
  C1 as the claim states it, without the condition on \<^verbatim>\<open>ignoreFunctions\<close>, fails:
  with the option on, \<^verbatim>\<open>f()[f().length - 1]\<close> meets every condition of the claim and
  is not reported.
\<close>

theorem match_reported_counterexample:
  "node_call = MemberExpression (0, 19) (CallExpression (0, 3) (Identifier (0, 1) ''f'') [])
       (BinaryExpression (4, 18) ''-''
          (MemberExpression (4, 14) (CallExpression (4, 7) (Identifier (4, 5) ''f'') [])
             (Identifier (8, 14) ''length'') False)
          (Literal (17, 18) ''1'')) True
   \<and> getFullName text_call (CallExpression (0, 3) (Identifier (0, 1) ''f'') [])
     = getFullName text_call (CallExpression (4, 7) (Identifier (4, 5) ''f'') [])
   \<and> isSupportedObject (example_checker (CallExpression (4, 7) (Identifier (4, 5) ''f'') []))
   \<and> getProperty (example_checker (CallExpression (4, 7) (Identifier (4, 5) ''f'') [])) ''at'' \<noteq> None
   \<and> isTypeFlagSet (example_checker (MemberExpression (4, 14)
         (CallExpression (4, 7) (Identifier (4, 5) ''f'') []) (Identifier (8, 14) ''length'') False))
       TypeFlags_NumberLike
   \<and> isTypeFlagSet (example_checker (Literal (17, 18) ''1'')) TypeFlags_NumberLike
   \<and> visit ignoringFunctions example_checker text_call node_call = []"
  by (simp add: rule_defs example_types example_defs)

text \<open>
  C2. On a visited node \<^verbatim>\<open>A[B.length - N]\<close> where the source text of \<open>A\<close> differs from
  the source text of \<open>B\<close> in any way, the rule makes no report, and so no fix, whatever
  the types are. (The property of \<open>B\<close> need not even be \<^verbatim>\<open>length\<close>.)
\<close>

theorem different_text_no_report:
  assumes "getFullName text A \<noteq> getFullName text B"
  shows "visit opts checker text
           (MemberExpression r A (BinaryExpression rp ''-'' (MemberExpression rl B lprop lc) N) c) = []"
  using assms by (simp add: visit_member)

theorem different_text_no_report_witness:
  "getFullName text_this (Identifier (0, 3) ''arr'')
     \<noteq> getFullName text_this
         (MemberExpression (4, 12) (ThisExpression (4, 8)) (Identifier (9, 12) ''arr'') False)
   \<and> visit defaultOptions example_checker text_this node_this = []"
proof -
  have h: "getFullName text_this (Identifier (0, 3) ''arr'')
     \<noteq> getFullName text_this
         (MemberExpression (4, 12) (ThisExpression (4, 8)) (Identifier (9, 12) ''arr'') False)"
    by (simp add: getFullName_def slice_def text_this_def)
  from different_text_no_report [OF h] h show ?thesis
    by (simp add: node_this_def)
qed

text \<open>
  C3. On a visited node \<^verbatim>\<open>X[X.length - N]\<close>, if the type of the object inside the
  \<^verbatim>\<open>.length\<close> access is not in the allow-list (its symbol is named neither
  \<^verbatim>\<open>Array\<close>, nor one of the eleven typed arrays, nor \<^verbatim>\<open>String\<close>, and its flags are
  not exactly the flag of the primitive string), or the type has no property \<^verbatim>\<open>at\<close>,
  the rule makes no report.
\<close>

theorem unsupported_type_no_report:
  assumes "t = checker B"
    and "(symbol_name t \<notin> Some ` {''Array'', ''Int8Array'', ''Uint8Array'', ''Uint8ClampedArray'',
            ''Int16Array'', ''Uint16Array'', ''Int32Array'', ''Float32Array'', ''Uint32Array'',
            ''Float64Array'', ''BigInt64Array'', ''BigUint64Array'', ''String''}
          \<and> type_flags t \<noteq> TypeFlags_String)
         \<or> getProperty t ''at'' = None"
  shows "visit opts checker text
           (MemberExpression r A (BinaryExpression rp ''-'' (MemberExpression rl B lprop lc) N) c) = []"
proof -
  from assms have "\<not> isSupportedObject (checker B) \<or> getProperty (checker B) ''at'' = None"
    by (auto simp: isSupportedObject_names)
  then have "\<not> isExpectedExpression opts checker (MemberExpression rl B lprop lc) N"
    by (auto simp: isExpectedExpression_member)
  then show ?thesis by (simp add: visit_member)
qed

theorem unsupported_type_no_report_witness:
  "symbol_name recordT \<notin> Some ` {''Array'', ''Int8Array'', ''Uint8Array'', ''Uint8ClampedArray'',
      ''Int16Array'', ''Uint16Array'', ''Int32Array'', ''Float32Array'', ''Uint32Array'',
      ''Float64Array'', ''BigInt64Array'', ''BigUint64Array'', ''String''}
   \<and> type_flags recordT \<noteq> TypeFlags_String
   \<and> visit defaultOptions example_checker text_obj node_obj = []
   \<and> symbol_name oldArrayT = Some ''Array''
   \<and> getProperty oldArrayT ''at'' = None
   \<and> visit defaultOptions example_checker ''old[old.length - 1]''
        (MemberExpression (0, 19) (Identifier (0, 3) ''old'')
           (BinaryExpression (4, 18) ''-''
              (MemberExpression (4, 14) (Identifier (4, 7) ''old'') (Identifier (8, 14) ''length'') False)
              (Literal (17, 18) ''1'')) True) = []"
proof -
  have t: "recordT = example_checker (Identifier (4, 7) ''obj'')"
    and t': "oldArrayT = example_checker (Identifier (4, 7) ''old'')"
    by simp_all
  have h: "symbol_name recordT \<notin> Some ` {''Array'', ''Int8Array'', ''Uint8Array'', ''Uint8ClampedArray'',
      ''Int16Array'', ''Uint16Array'', ''Int32Array'', ''Float32Array'', ''Uint32Array'',
      ''Float64Array'', ''BigInt64Array'', ''BigUint64Array'', ''String''}
    \<and> type_flags recordT \<noteq> TypeFlags_String"
    by (simp add: recordT_def TypeFlags_String_def image_iff)
  have h': "symbol_name oldArrayT = Some ''Array''" "getProperty oldArrayT ''at'' = None"
    by (simp_all add: oldArrayT_def getProperty_def)
  note unsupported_type_no_report
    [where checker = example_checker and B = "Identifier (4, 7) ''obj''", OF t disjI1 [OF h]]
  moreover note unsupported_type_no_report
    [where checker = example_checker and B = "Identifier (4, 7) ''old''", OF t' disjI2 [OF h'(2)]]
  ultimately show ?thesis using h h' by (simp add: node_obj_def)
qed

text \<open>
  C4. With \<^verbatim>\<open>ignoreFunctions\<close> on, a visited node whose \<^verbatim>\<open>.length\<close> access has a call
  anywhere on its object chain is not reported, whatever else holds. With the option off
  (the default) the chain is not looked at: the node is reported when the other
  conditions hold, as \<^verbatim>\<open>f()[f().length - 1]\<close> is, with the fix \<^verbatim>\<open>f().at(-1)\<close>.
\<close>

theorem ignoreFunctions_gate:
  "(ignoreFunctions opts \<and> (\<exists>m \<in> set (object_chain left). isCallExpression m)
      \<longrightarrow> visit opts checker text
            (MemberExpression r obj (BinaryExpression rp op left right) c) = [])
   \<and> (\<not> ignoreFunctions opts
       \<and> left = MemberExpression rl lobj (Identifier ri ''length'') False
       \<and> getFullName text obj = getFullName text lobj
       \<and> isSupportedObject (checker lobj)
       \<and> getProperty (checker lobj) ''at'' \<noteq> None
       \<and> isTypeFlagSet (checker left) TypeFlags_NumberLike
       \<and> isTypeFlagSet (checker right) TypeFlags_NumberLike
      \<longrightarrow> visit opts checker text
            (MemberExpression r obj (BinaryExpression rp ''-'' left right) c) =
          [\<lparr>messageId = ''preferAt'',
            report_data = [(''name'', getFullName text obj)],
            report_node = MemberExpression r obj (BinaryExpression rp ''-'' left right) c,
            report_fix = \<lparr>fix_range = r,
              fix_text = getFullName text obj @ ''.at(-'' @ getFullName text right @ '')''\<rparr>\<rparr>])"
proof (intro conjI impI)
  assume "ignoreFunctions opts \<and> (\<exists>m \<in> set (object_chain left). isCallExpression m)"
  then show "visit opts checker text
      (MemberExpression r obj (BinaryExpression rp op left right) c) = []"
    by (simp add: visit_call_on_chain)
next
  assume a: "\<not> ignoreFunctions opts
       \<and> left = MemberExpression rl lobj (Identifier ri ''length'') False
       \<and> getFullName text obj = getFullName text lobj
       \<and> isSupportedObject (checker lobj)
       \<and> getProperty (checker lobj) ''at'' \<noteq> None
       \<and> isTypeFlagSet (checker left) TypeFlags_NumberLike
       \<and> isTypeFlagSet (checker right) TypeFlags_NumberLike"
  then show "visit opts checker text
            (MemberExpression r obj (BinaryExpression rp ''-'' left right) c) =
          [\<lparr>messageId = ''preferAt'',
            report_data = [(''name'', getFullName text obj)],
            report_node = MemberExpression r obj (BinaryExpression rp ''-'' left right) c,
            report_fix = \<lparr>fix_range = r,
              fix_text = getFullName text obj @ ''.at(-'' @ getFullName text right @ '')''\<rparr>\<rparr>]"
    by (intro visit_match
        [where rl = rl and lobj = lobj and lprop = "Identifier ri ''length''" and lc = False])
      auto
qed

theorem ignoreFunctions_gate_witness:
  "ignoreFunctions ignoringFunctions
   \<and> isCallExpression (CallExpression (4, 7) (Identifier (4, 5) ''f'') [])
   \<and> visit ignoringFunctions example_checker text_call node_call = []
   \<and> \<not> ignoreFunctions defaultOptions
   \<and> visit defaultOptions example_checker text_call node_call =
       [\<lparr>messageId = ''preferAt'', report_data = [(''name'', ''f()'')], report_node = node_call,
         report_fix = \<lparr>fix_range = (0, 19), fix_text = ''f().at(-1)''\<rparr>\<rparr>]"
proof -
  let ?left = "MemberExpression (4, 14) (CallExpression (4, 7) (Identifier (4, 5) ''f'') [])
                 (Identifier (8, 14) ''length'') False"
  let ?obj = "CallExpression (0, 3) (Identifier (0, 1) ''f'') []"
  let ?right = "Literal (17, 18) ''1''"
  have on: "ignoreFunctions ignoringFunctions \<and> (\<exists>m \<in> set (object_chain ?left). isCallExpression m)"
    by (simp add: ignoringFunctions_def)
  have off: "\<not> ignoreFunctions defaultOptions
       \<and> ?left = MemberExpression (4, 14) (CallExpression (4, 7) (Identifier (4, 5) ''f'') [])
                 (Identifier (8, 14) ''length'') False
       \<and> getFullName text_call ?obj
         = getFullName text_call (CallExpression (4, 7) (Identifier (4, 5) ''f'') [])
       \<and> isSupportedObject (example_checker (CallExpression (4, 7) (Identifier (4, 5) ''f'') []))
       \<and> getProperty (example_checker (CallExpression (4, 7) (Identifier (4, 5) ''f'') [])) ''at'' \<noteq> None
       \<and> isTypeFlagSet (example_checker ?left) TypeFlags_NumberLike
       \<and> isTypeFlagSet (example_checker ?right) TypeFlags_NumberLike"
    by (simp add: example_names example_type_facts defaultOptions_def)
  note g1 = ignoreFunctions_gate
    [of ignoringFunctions ?left example_checker text_call "(0, 19)" ?obj "(4, 18)" "''-''"
       ?right True, THEN conjunct1, rule_format, OF on]
  note g2 = ignoreFunctions_gate
    [of defaultOptions ?left example_checker text_call "(0, 19)" ?obj "(4, 18)" "''-''"
       ?right True "(4, 14)" "CallExpression (4, 7) (Identifier (4, 5) ''f'') []" "(8, 14)",
       THEN conjunct2, rule_format, OF off]
  from g1 g2 show ?thesis
    by (simp add: node_call_def example_names ignoringFunctions_def defaultOptions_def)
qed

text \<open>
  C5. The fix of every report is built the same way: its range is the range of the whole
  outer member access, and its text is the source text of the object, then \<^verbatim>\<open>.at(-\<close>,
  then the source text of the offset as it stands, then \<^verbatim>\<open>)\<close>. Nothing is added when
  the offset is not a literal: for \<^verbatim>\<open>arr[arr.length - (n - 1)]\<close> the offset's text is
  \<^verbatim>\<open>n - 1\<close> and the fix is \<^verbatim>\<open>arr.at(-n - 1)\<close>; for \<^verbatim>\<open>arr[arr.length - -1]\<close>
  the fix is \<^verbatim>\<open>arr.at(--1)\<close>.
\<close>

theorem fix_text_verbatim:
  assumes "rep \<in> set (visit opts checker text
             (MemberExpression r X (BinaryExpression rp op left N) c))"
  shows "report_fix rep =
     \<lparr>fix_range = node_range (MemberExpression r X (BinaryExpression rp op left N) c),
      fix_text = getFullName text X @ ''.at(-'' @ getFullName text N @ '')''\<rparr>"
  using assms visit_cases [of opts checker "text" r X rp op left N c] by auto

theorem fix_text_verbatim_witness:
  "visit defaultOptions example_checker text_paren node_paren \<noteq> []
   \<and> getFullName text_paren
       (BinaryExpression (18, 23) ''-'' (Identifier (18, 19) ''n'') (Literal (22, 23) ''1''))
     = ''n - 1''
   \<and> report_fix (hd (visit defaultOptions example_checker text_paren node_paren)) =
       \<lparr>fix_range = (0, 25), fix_text = ''arr.at(-n - 1)''\<rparr>
   \<and> visit defaultOptions example_checker text_signed node_signed \<noteq> []
   \<and> report_fix (hd (visit defaultOptions example_checker text_signed node_signed)) =
       \<lparr>fix_range = (0, 20), fix_text = ''arr.at(--1)''\<rparr>"
proof -
  have ne: "visit defaultOptions example_checker text_paren node_paren \<noteq> []"
    by (simp add: visit_paren)
  then have "hd (visit defaultOptions example_checker text_paren node_paren)
      \<in> set (visit defaultOptions example_checker text_paren node_paren)"
    by simp
  then have p: "report_fix (hd (visit defaultOptions example_checker text_paren node_paren)) =
     \<lparr>fix_range = node_range node_paren,
      fix_text = getFullName text_paren (Identifier (0, 3) ''arr'') @ ''.at(-''
        @ getFullName text_paren
            (BinaryExpression (18, 23) ''-'' (Identifier (18, 19) ''n'') (Literal (22, 23) ''1''))
        @ '')''\<rparr>"
    unfolding node_paren_def by (rule fix_text_verbatim)
  have ne': "visit defaultOptions example_checker text_signed node_signed \<noteq> []"
    by (simp add: visit_signed)
  then have "hd (visit defaultOptions example_checker text_signed node_signed)
      \<in> set (visit defaultOptions example_checker text_signed node_signed)"
    by simp
  then have "report_fix (hd (visit defaultOptions example_checker text_signed node_signed)) =
     \<lparr>fix_range = node_range node_signed,
      fix_text = getFullName text_signed (Identifier (0, 3) ''arr'') @ ''.at(-''
        @ getFullName text_signed (UnaryExpression (17, 19) ''-'' (Literal (18, 19) ''1''))
        @ '')''\<rparr>"
    unfolding node_signed_def by (rule fix_text_verbatim)
  with p ne ne' show ?thesis
    by (simp add: node_paren_def node_signed_def getFullName_def slice_def text_paren_def
        text_signed_def)
qed

text \<open>
  C6. The variant that compares the two texts before it checks the types makes the same
  reports, with the same fixes, as the rule, on every node.
\<close>

theorem check_order_irrelevant:
  "visit_text_first opts checker text n = visit opts checker text n"
proof (cases "selector n")
  case True
  then obtain r obj rp left right c
    where n: "n = MemberExpression r obj (BinaryExpression rp ''-'' left right) c"
    by (rule selector_shape)
  show ?thesis
    unfolding n
    by (cases left)
      (auto simp: visit_def visit_text_first_def Let_def isExpectedExpression_other)
next
  case False
  then show ?thesis by (simp add: visit_def visit_text_first_def)
qed

theorem check_order_irrelevant_witness:
  "visit_text_first defaultOptions example_checker text_arr node_arr =
     [\<lparr>messageId = ''preferAt'', report_data = [(''name'', ''arr'')], report_node = node_arr,
       report_fix = \<lparr>fix_range = (0, 19), fix_text = ''arr.at(-1)''\<rparr>\<rparr>]
   \<and> visit_text_first defaultOptions example_checker text_this node_this = []"
proof -
  have "visit defaultOptions example_checker text_this node_this = []"
    by (simp add: rule_defs example_types example_defs)
  with check_order_irrelevant [of defaultOptions example_checker text_arr node_arr]
    check_order_irrelevant [of defaultOptions example_checker text_this node_this]
  show ?thesis by (simp add: visit_arr)
qed

text \<open>
  C7. The text of a fix ends with \<^verbatim>\<open>)\<close>, and the source of a node of the selector
  ends with \<^verbatim>\<open>]\<close>. So, in any tree parsed again with its brackets closed, a node
  whose source is the text of a fix, or ends with it, is no member access with a
  subtraction as computed property: the selector does not match it, and the rule, run
  again with any options and checker, makes no report on it.
\<close>

theorem fix_not_matched_again:
  assumes "rep \<in> set (visit opts checker text n)"
    and "brackets_closed src tree"
    and "m \<in> set (subnodes tree)"
    and "getFullName src m = pre @ fix_text (report_fix rep)"
  shows "\<not> selector m \<and> visit opts' checker' src m = []"
proof -
  from assms(1) obtain body where "fix_text (report_fix rep) = body @ '')''"
    using fix_text_closes by blast
  with assms(4) have "last (getFullName src m) = CHR '')''" by simp
  then have "\<not> closes_with_bracket src m" by (simp add: closes_with_bracket_def)
  moreover from assms(2,3) have "selector m \<longrightarrow> closes_with_bracket src m"
    by (simp add: brackets_closed_def list_all_iff)
  ultimately have "\<not> selector m" by blast
  then show ?thesis by (simp add: visit_def)
qed

theorem fix_not_matched_again_witness:
  "fix_text (report_fix (hd (visit defaultOptions example_checker text_two node_two_left))) = ''a.at(-1)''
   \<and> brackets_closed text_fixed node_fixed
   \<and> selector node_fixed_right \<and> closes_with_bracket text_fixed node_fixed_right
   \<and> node_fixed_left \<in> set (subnodes node_fixed)
   \<and> getFullName text_fixed node_fixed_left = ''a.at(-1)''
   \<and> visit defaultOptions example_checker text_fixed node_fixed_left = []
   \<and> visit defaultOptions example_checker text_fixed node_fixed_right \<noteq> []"
proof -
  let ?rep = "hd (visit defaultOptions example_checker text_two node_two_left)"
  have rep: "?rep \<in> set (visit defaultOptions example_checker text_two node_two_left)"
    by (simp add: visit_two_left)
  have fx: "fix_text (report_fix ?rep) = ''a.at(-1)''"
    by (simp add: visit_two_left)
  have closed: "brackets_closed text_fixed node_fixed"
    by (simp add: brackets_closed_def closes_with_bracket_def node_fixed_def node_fixed_left_def
        node_fixed_right_def getFullName_def slice_def text_fixed_def)
  have right: "selector node_fixed_right" "closes_with_bracket text_fixed node_fixed_right"
    by (simp_all add: closes_with_bracket_def node_fixed_right_def getFullName_def slice_def
        text_fixed_def)
  have sub: "node_fixed_left \<in> set (subnodes node_fixed)"
    by (simp add: node_fixed_def node_fixed_left_def)
  have src: "getFullName text_fixed node_fixed_left = [] @ fix_text (report_fix ?rep)"
    by (simp add: fx getFullName_def slice_def text_fixed_def node_fixed_left_def)
  from fix_not_matched_again [OF rep closed sub src, of defaultOptions example_checker]
    fx closed right sub src
  show ?thesis by (simp add: visit_fixed_right)
qed

text \<open>
  C8. Whatever the offset is, a report has the message id \<^verbatim>\<open>preferAt\<close> and the
  object's source text as the only datum, \<^verbatim>\<open>name\<close>; its message is the one template
  of the rule, which names the offset 1, with the object's text in place of the
  placeholder. A visited node has at most this one report, the report carries one fix,
  and the rule is declared fixable.
\<close>

theorem message_fixed_template:
  assumes "rep \<in> set (visit opts checker text
             (MemberExpression r X (BinaryExpression rp op left N) c))"
  shows "messageId rep = ''preferAt''
     \<and> report_data rep = [(''name'', getFullName text X)]
     \<and> render_message rep =
         Some (''Expected a `'' @ getFullName text X @ ''.at(-1)` instead of `''
               @ getFullName text X @ ''['' @ getFullName text X @ ''.length - 1]`.'')
     \<and> visit opts checker text (MemberExpression r X (BinaryExpression rp op left N) c) = [rep]
     \<and> meta_fixable = ''code''"
proof -
  from assms visit_cases [of opts checker "text" r X rp op left N c]
  have v: "visit opts checker text (MemberExpression r X (BinaryExpression rp op left N) c) = [rep]"
    and m: "messageId rep = ''preferAt''"
    and d: "report_data rep = [(''name'', getFullName text X)]"
    by auto
  from m d have "render_message rep =
         Some (''Expected a `'' @ getFullName text X @ ''.at(-1)` instead of `''
               @ getFullName text X @ ''['' @ getFullName text X @ ''.length - 1]`.'')"
    unfolding render_message_def meta_messages_def
    by (simp del: interpolate.simps add: interpolate_preferAt)
  with v m d show ?thesis by (simp add: meta_fixable_def)
qed

theorem message_fixed_template_witness:
  "visit defaultOptions example_checker text_s node_s \<noteq> []
   \<and> fix_text (report_fix (hd (visit defaultOptions example_checker text_s node_s))) = ''s.at(-2)''
   \<and> render_message (hd (visit defaultOptions example_checker text_s node_s)) =
       Some ''Expected a `s.at(-1)` instead of `s[s.length - 1]`.''"
proof -
  have ne: "visit defaultOptions example_checker text_s node_s \<noteq> []"
    by (simp add: visit_s)
  then have "hd (visit defaultOptions example_checker text_s node_s)
      \<in> set (visit defaultOptions example_checker text_s node_s)"
    by simp
  then have "render_message (hd (visit defaultOptions example_checker text_s node_s)) =
         Some (''Expected a `'' @ getFullName text_s (Identifier (0, 1) ''s'') @ ''.at(-1)` instead of `''
               @ getFullName text_s (Identifier (0, 1) ''s'') @ ''[''
               @ getFullName text_s (Identifier (0, 1) ''s'') @ ''.length - 1]`.'')"
    unfolding node_s_def by (rule message_fixed_template [THEN conjunct2, THEN conjunct2, THEN conjunct1])
  moreover have "getFullName text_s (Identifier (0, 1) ''s'') = ''s''"
    by (simp add: getFullName_def slice_def text_s_def)
  ultimately show ?thesis using ne by (simp add: visit_s)
qed

text \<open>
  C9. The walk of \<^verbatim>\<open>hasCallExpression\<close> follows \<^verbatim>\<open>object\<close> links only. When the
  object of the \<^verbatim>\<open>.length\<close> access is a computed member access whose property is a
  call, as \<^verbatim>\<open>a[f()]\<close> is, and no node on the object chain is a call, the walk finds
  no call, and with \<^verbatim>\<open>ignoreFunctions\<close> on the node is reported when the other
  conditions hold.
\<close>

theorem property_call_not_detected:
  assumes "ignoreFunctions opts"
    and "lobj = MemberExpression ro base (CallExpression rc callee args) True"
    and "left = MemberExpression rl lobj (Identifier ri ''length'') False"
    and "\<forall>m \<in> set (base # object_chain base). \<not> isCallExpression m"
    and "getFullName text obj = getFullName text lobj"
    and "isSupportedObject (checker lobj)"
    and "getProperty (checker lobj) ''at'' \<noteq> None"
    and "isTypeFlagSet (checker left) TypeFlags_NumberLike"
    and "isTypeFlagSet (checker right) TypeFlags_NumberLike"
  shows "\<not> hasCallExpression left
     \<and> visit opts checker text (MemberExpression r obj (BinaryExpression rp ''-'' left right) c) =
         [\<lparr>messageId = ''preferAt'',
           report_data = [(''name'', getFullName text obj)],
           report_node = MemberExpression r obj (BinaryExpression rp ''-'' left right) c,
           report_fix = \<lparr>fix_range = r,
             fix_text = getFullName text obj @ ''.at(-'' @ getFullName text right @ '')''\<rparr>\<rparr>]"
proof -
  from assms(2-4) have no: "\<not> hasCallExpression left"
    by (simp add: hasCallExpression_chain)
  with assms(3,5-9) have "visit opts checker text
      (MemberExpression r obj (BinaryExpression rp ''-'' left right) c) =
         [\<lparr>messageId = ''preferAt'',
           report_data = [(''name'', getFullName text obj)],
           report_node = MemberExpression r obj (BinaryExpression rp ''-'' left right) c,
           report_fix = \<lparr>fix_range = r,
             fix_text = getFullName text obj @ ''.at(-'' @ getFullName text right @ '')''\<rparr>\<rparr>]"
    by (intro visit_match
        [where rl = rl and lobj = lobj and lprop = "Identifier ri ''length''" and lc = False])
      simp_all
  with no show ?thesis by simp
qed

theorem property_call_not_detected_witness:
  "ignoreFunctions ignoringFunctions
   \<and> visit ignoringFunctions example_checker text_prop_call node_prop_call =
       [\<lparr>messageId = ''preferAt'', report_data = [(''name'', ''a[f()]'')],
         report_node = node_prop_call,
         report_fix = \<lparr>fix_range = (0, 25), fix_text = ''a[f()].at(-1)''\<rparr>\<rparr>]"
proof -
  let ?lobj = "MemberExpression (7, 13) (Identifier (7, 8) ''a'')
                 (CallExpression (9, 12) (Identifier (9, 10) ''f'') []) True"
  let ?obj = "MemberExpression (0, 6) (Identifier (0, 1) ''a'')
                 (CallExpression (2, 5) (Identifier (2, 3) ''f'') []) True"
  let ?left = "MemberExpression (7, 20) ?lobj (Identifier (14, 20) ''length'') False"
  have on: "ignoreFunctions ignoringFunctions" by (simp add: ignoringFunctions_def)
  have chain: "\<forall>m \<in> set (Identifier (7, 8) ''a'' # object_chain (Identifier (7, 8) ''a'')).
      \<not> isCallExpression m"
    by simp
  have "visit ignoringFunctions example_checker text_prop_call
      (MemberExpression (0, 25) ?obj (BinaryExpression (7, 24) ''-'' ?left (Literal (23, 24) ''1'')) True) =
         [\<lparr>messageId = ''preferAt'',
           report_data = [(''name'', getFullName text_prop_call ?obj)],
           report_node = MemberExpression (0, 25) ?obj
             (BinaryExpression (7, 24) ''-'' ?left (Literal (23, 24) ''1'')) True,
           report_fix = \<lparr>fix_range = (0, 25),
             fix_text = getFullName text_prop_call ?obj @ ''.at(-''
               @ getFullName text_prop_call (Literal (23, 24) ''1'') @ '')''\<rparr>\<rparr>]"
    by (rule property_call_not_detected [OF on refl refl chain, THEN conjunct2])
      (simp_all add: example_names example_type_facts)
  with on show ?thesis by (simp add: example_names node_prop_call_def)
qed

text \<open>
  C10. The checker is asked about the \<^verbatim>\<open>.length\<close> access, its object and the offset,
  and about no other node: two checkers that agree on these three give the same reports.
  In a parsed tree the outer object is none of the three, so two checkers that agree on
  every node but the outer object give the same reports, messages and fixes.
\<close>

theorem outer_object_type_irrelevant:
  "(c1 left = c2 left \<and> c1 right = c2 right
      \<and> (\<forall>lobj \<in> set (take 1 (object_chain left)). c1 lobj = c2 lobj)
    \<longrightarrow> visit opts c1 text (MemberExpression r obj (BinaryExpression rp op left right) c)
        = visit opts c2 text (MemberExpression r obj (BinaryExpression rp op left right) c))
   \<and> (wf_ranges (MemberExpression r obj property c) \<and> (\<forall>m. m \<noteq> obj \<longrightarrow> c1 m = c2 m)
    \<longrightarrow> visit opts c1 text (MemberExpression r obj property c)
        = visit opts c2 text (MemberExpression r obj property c))"
proof -
  have inner: "visit opts c1 text (MemberExpression r obj (BinaryExpression rp op left right) c)
        = visit opts c2 text (MemberExpression r obj (BinaryExpression rp op left right) c)"
    if "c1 left = c2 left" "c1 right = c2 right"
      "\<forall>lobj \<in> set (take 1 (object_chain left)). c1 lobj = c2 lobj"
    for rp op left right
  proof (cases "op = ''-''")
    case minus: True
    show ?thesis
    proof (cases left)
      case (MemberExpression rl lobj lprop lc)
      with that have "c1 lobj = c2 lobj" by simp
      with that(1,2) minus MemberExpression show ?thesis
        by (simp add: visit_member isExpectedExpression_member)
    qed (simp_all add: visit_other_left)
  next
    case False
    then show ?thesis by (simp add: visit_other_operator)
  qed
  have outer: "visit opts c1 text (MemberExpression r obj property c)
        = visit opts c2 text (MemberExpression r obj property c)"
    if wf: "wf_ranges (MemberExpression r obj property c)"
      and agree: "\<forall>m. m \<noteq> obj \<longrightarrow> c1 m = c2 m"
  proof (cases property)
    case (BinaryExpression rp op left right)
    from wf have o: "fst (node_range obj) < snd (node_range obj)"
      by (simp add: wf_ranges_nonempty)
    from wf BinaryExpression have b: "snd (node_range obj) \<le> fst rp"
      and l: "fst rp \<le> fst (node_range left)" and rt: "fst rp \<le> fst (node_range right)"
      and wl: "wf_ranges left"
      by (simp_all add: range_before_def range_inside_def)
    from o b l have "node_range left \<noteq> node_range obj" by auto
    then have 1: "left \<noteq> obj" by auto
    from o b rt have "node_range right \<noteq> node_range obj" by auto
    then have 2: "right \<noteq> obj" by auto
    have 3: "\<forall>lobj \<in> set (take 1 (object_chain left)). lobj \<noteq> obj"
    proof (cases left)
      case (MemberExpression rl lobj lprop lc)
      with wl have "fst rl \<le> fst (node_range lobj)" by (simp add: range_inside_def)
      with o b l MemberExpression have "node_range lobj \<noteq> node_range obj" by auto
      then have "lobj \<noteq> obj" by auto
      with MemberExpression show ?thesis by simp
    qed simp_all
    from 1 2 3 agree show ?thesis
      unfolding BinaryExpression by (intro inner) auto
  qed (simp_all add: visit_def)
  from inner outer show ?thesis by blast
qed

theorem outer_object_type_irrelevant_witness:
  "wf_ranges node_arr
   \<and> example_checker (Identifier (0, 3) ''arr'') \<noteq> recordT
   \<and> visit defaultOptions (example_checker (Identifier (0, 3) ''arr'' := recordT)) text_arr node_arr =
       [\<lparr>messageId = ''preferAt'', report_data = [(''name'', ''arr'')], report_node = node_arr,
         report_fix = \<lparr>fix_range = (0, 19), fix_text = ''arr.at(-1)''\<rparr>\<rparr>]"
proof -
  let ?obj = "Identifier (0, 3) ''arr''"
  let ?index = "BinaryExpression (4, 18) ''-''
        (MemberExpression (4, 14) (Identifier (4, 7) ''arr'') (Identifier (8, 14) ''length'') False)
        (Literal (17, 18) ''1'')"
  have wf: "wf_ranges (MemberExpression (0, 19) ?obj ?index True)"
    by (simp add: range_inside_def range_before_def)
  have agree: "\<forall>m. m \<noteq> ?obj \<longrightarrow> example_checker m = (example_checker (?obj := recordT)) m"
    by simp
  have "visit defaultOptions example_checker text_arr (MemberExpression (0, 19) ?obj ?index True)
      = visit defaultOptions (example_checker (?obj := recordT)) text_arr
          (MemberExpression (0, 19) ?obj ?index True)"
    by (rule outer_object_type_irrelevant
        [where ?c1.0 = example_checker and ?c2.0 = "example_checker (?obj := recordT)",
          THEN conjunct2, rule_format])
      (use wf agree in blast)
  moreover have "example_checker ?obj \<noteq> recordT"
    by (simp add: example_types)
  ultimately show ?thesis using wf visit_arr [of defaultOptions]
    by (simp add: node_arr_def)
qed

end
